theory Spec2Isabelle
  imports Complex_Main "HOL-Library.Log_Nat" "HOL-Library.AList"
    "HOL-Library.Char_ord" "HOL-Library.List_Lexorder" "HOL-Library.Product_Lexorder"
begin

section \<open>Data model (src/src/App.tsx, lines 43-69)\<close>

text \<open>
  \<^verbatim>\<open>const STATUSES = ["Not Started", "In Progress", "Blocked", "Done"] as const;\<close>
  The four literals are the values of the type \<^verbatim>\<open>Task["status"]\<close>; at run time they are
  strings, which \<open>status_str\<close> gives back.
\<close>

datatype status = NotStarted | InProgress | Blocked | Done

fun status_str :: "status \<Rightarrow> string" where
  "status_str NotStarted = ''Not Started''"
| "status_str InProgress = ''In Progress''"
| "status_str Blocked = ''Blocked''"
| "status_str Done = ''Done''"

text \<open>
  \<^verbatim>\<open>export type Task = { id; category; title; status; owner?; dueDate?; notes? }\<close>.
  An optional field is an \<open>option\<close>: \<open>None\<close> is the absent (or undefined) field.
  The fields \<^verbatim>\<open>id\<close> and \<^verbatim>\<open>notes\<close> are named \<open>task_id\<close> and \<open>task_notes\<close> here (\<open>id\<close> is
  the identity function of HOL and \<open>notes\<close> a keyword of Isar).
\<close>

record task =
  task_id :: string
  category :: string
  title :: string
  status :: status
  owner :: "string option"
  dueDate :: "string option"
  task_notes :: "string option"

text \<open>
  \<^verbatim>\<open>export type Employee = { id; name; startDate?; role?; manager?; email?; tasks }\<close>.
\<close>

record employee =
  emp_id :: string
  name :: string
  startDate :: "string option"
  role :: "string option"
  manager :: "string option"
  email :: "string option"
  tasks :: "task list"

section \<open>Helpers of the language\<close>

text \<open>\<^verbatim>\<open>v ?? ""\<close> on an optional string.\<close>

definition nullish_str :: "string option \<Rightarrow> string" where
  "nullish_str v = (case v of None \<Rightarrow> [] | Some s \<Rightarrow> s)"

text \<open>
  Truthiness of an optional string, as in \<^verbatim>\<open>if (f.status && ...)\<close>: undefined and the
  empty string are falsy, every other string is truthy.
\<close>

definition truthy :: "string option \<Rightarrow> bool" where
  "truthy v = (case v of None \<Rightarrow> False | Some s \<Rightarrow> s \<noteq> [])"


text \<open>
  The object spread of \<^verbatim>\<open>{ ...t, ...patch }\<close>, field by field: a field the patch does not
  have keeps the old value, a field it has takes the patch's value.
\<close>

definition spread :: "'a \<Rightarrow> 'a option \<Rightarrow> 'a" where
  "spread old new = (case new of None \<Rightarrow> old | Some v \<Rightarrow> v)"


text \<open>
  \<^verbatim>\<open>String.prototype.split\<close> with a separator of one character: the empty string
  splits into one empty piece.
\<close>

fun split :: "char \<Rightarrow> string \<Rightarrow> string list" where
  "split c [] = [[]]"
| "split c (x # xs) =
     (if x = c then [] # split c xs
      else (case split c xs of [] \<Rightarrow> [[x]] | l # ls \<Rightarrow> (x # l) # ls))"

text \<open>
  \<^verbatim>\<open>Array.from(new Set(xs))\<close>: a Set keeps its elements in insertion order, and adding an
  element it already has changes nothing.
\<close>

definition array_from_set :: "'a list \<Rightarrow> 'a list" where
  "array_from_set xs = fold (\<lambda>x acc. if x \<in> set acc then acc else acc @ [x]) xs []"

section \<open>Defaults (lines 72-91)\<close>

definition DEFAULT_CATEGORIES :: "(string \<times> string list) list" where
  "DEFAULT_CATEGORIES =
     [(''Accounts'', [''Create email'', ''Add to domain'', ''Set up MFA'']),
      (''Hardware'', [''Assign laptop'', ''Issue monitor'', ''Peripherals (kb/mouse)'']),
      (''Software'', [''Install Office/365'', ''Install Zoom'', ''Install Endpoint Protection'']),
      (''Access'', [''VPN access'', ''Add to network shares'', ''Add to Jira/Confluence'']),
      (''Orientation'',
         [''Add to internal wiki'', ''Welcome email'', ''First-day checklist walk-through'']),
      (''Compliance & Security'',
         [''Clearance status check'', ''Security+ certification (Have / Not / In progress)'',
          ''Apply for corporate card'', ''Set up Concur'', ''Complete all CBT trainings''])]"

definition STORAGE_KEY :: string where
  "STORAGE_KEY = ''it-onboarding-v1''"

section \<open>Identifiers and the task template (uid, cloneTemplate, lines 94-111)\<close>

text \<open>
  \<^verbatim>\<open>return `${prefix}_${Math.random().toString(36).slice(2, 9)}`;\<close>
  The random source is outside the program: \<open>rnd\<close> is the text that
  \<^verbatim>\<open>Math.random().toString(36).slice(2, 9)\<close> evaluates to in this call (at most seven
  characters of the base-36 expansion).
\<close>

definition uid :: "string \<Rightarrow> string \<Rightarrow> string" where
  "uid prefix rnd = prefix @ ''_'' @ rnd"

text \<open>
  The pairs of indices, category name and title in the order in which
  \<^verbatim>\<open>DEFAULT_CATEGORIES.flatMap((cat, i) => cat.tasks.map((t, j) => ...))\<close> visits them.
\<close>

definition template_slots :: "(nat \<times> nat \<times> string \<times> string) list" where
  "template_slots =
     concat (map (\<lambda>(i, (c, ts)). map (\<lambda>(j, t). (i, j, c, t)) (enumerate 0 ts))
               (enumerate 0 DEFAULT_CATEGORIES))"

text \<open>
  \<open>cloneTemplate today toISODate random36\<close>: \<open>today\<close> is \<^verbatim>\<open>new Date().getTime()\<close>,
  \<open>toISODate ms\<close> is \<^verbatim>\<open>new Date(ms).toISOString().slice(0, 10)\<close>, and \<open>random36 n\<close> is
  the random text of the \<open>n\<close>-th call of \<open>uid\<close> (the callbacks run in the order of the
  result, one call of \<open>uid\<close> each).
\<close>

definition cloneTemplate :: "int \<Rightarrow> (int \<Rightarrow> string) \<Rightarrow> (nat \<Rightarrow> string) \<Rightarrow> task list" where
  "cloneTemplate today toISODate random36 =
     map (\<lambda>(n, (i, j, c, t)).
            \<lparr>task_id = uid ''task'' (random36 n), category = c, title = t,
             status = NotStarted, owner = None,
             dueDate = Some (toISODate (today + int (i + j) * 24 * 60 * 60 * 1000)),
             task_notes = None\<rparr>)
       (enumerate 0 template_slots)"

section \<open>Progress (calcProgress, lines 113-117)\<close>

text \<open>
  The numbers of the source are IEEE 754 binary64 values. \<open>to_double x\<close> is the value
  nearest to the rational \<open>x\<close> with a significand of 53 bits, ties going to the even
  significand: the rounding of every arithmetic operation. It covers the normal range
  (no overflow, no subnormal value), which holds every quotient of two array lengths
  and its product with 100.
\<close>

definition pow2 :: "int \<Rightarrow> rat" where
  "pow2 k = (if 0 \<le> k then 2 ^ nat k else 1 / 2 ^ nat (- k))"

text \<open>The exponent \<open>e\<close> with \<open>2 ^ e \<le> x < 2 ^ (e + 1)\<close>, for a positive \<open>x\<close>.\<close>

definition binade :: "rat \<Rightarrow> int" where
  "binade x =
     (let (a, b) = quotient_of x; k = bitlen a - bitlen b
      in if pow2 k \<le> x then k else k - 1)"

definition round_half_even :: "rat \<Rightarrow> int" where
  "round_half_even x =
     (let f = \<lfloor>x\<rfloor>; r = x - of_int f
      in if r < 1 / 2 then f else if 1 / 2 < r then f + 1
         else if even f then f else f + 1)"

definition to_double :: "rat \<Rightarrow> rat" where
  "to_double x =
     (if x = 0 then 0
      else let u = pow2 (binade \<bar>x\<bar> - 52) in of_int (round_half_even (x / u)) * u)"

text \<open>\<^verbatim>\<open>Math.round\<close>: the nearest integer, a tie going up.\<close>

definition js_round :: "rat \<Rightarrow> int" where
  "js_round x = \<lfloor>x + 1 / 2\<rfloor>"

text \<open>
  \<^verbatim>\<open>
  const total = tasks.length || 1;
  const done = tasks.filter((t) => t.status === "Done").length;
  return Math.round((done / total) * 100);
  \<close>
  The division and the multiplication each round to a double.
\<close>

definition calcProgress :: "task list \<Rightarrow> int" where
  "calcProgress ts =
     (let total = (if length ts = 0 then 1 else length ts);
          done = length (filter (\<lambda>t. status t = Done) ts)
      in js_round (to_double (to_double (of_nat done / of_nat total) * 100)))"

text \<open>
  The formula of the specification, in exact arithmetic:
  round(100 * count(status == Done) / total), with total at least 1.
\<close>

definition progress_formula :: "task list \<Rightarrow> int" where
  "progress_formula ts =
     js_round (100 * of_nat (length (filter (\<lambda>t. status t = Done) ts))
                 / of_nat (max (length ts) 1))"

section \<open>CSV export (toCSV, lines 119-126)\<close>








section \<open>Filter predicate (matchTaskHelper, lines 138-145)\<close>

text \<open>The filter \<^verbatim>\<open>f: { status?: string; owner?: string }\<close>.\<close>

record task_filter =
  fstatus :: "string option"
  fowner :: "string option"

text \<open>
  \<^verbatim>\<open>
  if (f.status && t.status !== (f.status as Task["status"])) return false;
  if (f.owner && (t.owner ?? "") !== f.owner) return false;
  return true;
  \<close>
\<close>

definition matchTaskHelper :: "task \<Rightarrow> task_filter \<Rightarrow> bool" where
  "matchTaskHelper t f =
     (if truthy (fstatus f) \<and> Some (status_str (status t)) \<noteq> fstatus f then False
      else if truthy (fowner f) \<and> Some (nullish_str (owner t)) \<noteq> fowner f then False
      else True)"

section \<open>Local adapter (localAdapter, lines 161-203)\<close>

text \<open>
  What \<^verbatim>\<open>localStorage\<close> holds under \<open>STORAGE_KEY\<close>, by what \<^verbatim>\<open>load\<close> makes of it:
  no item (\<^verbatim>\<open>getItem\<close> gives null, or the empty string, which is falsy too); a text that
  \<^verbatim>\<open>JSON.parse\<close> rejects; the JSON text of a value that is not an array; the JSON text of
  an array of employees. \<^verbatim>\<open>JSON.parse(JSON.stringify(rows))\<close> gives \<open>rows\<close> back (a field
  whose value is undefined is left out of the text, which is the absent field again), and
  \<^verbatim>\<open>setItem\<close> is taken to succeed.
\<close>

datatype stored = NoItem | Unparseable | NonArray | Rows "employee list"

text \<open>What \<^verbatim>\<open>load\<close> resolves to: an array of employees, or another value.\<close>

datatype loaded = Other | Arr "employee list"

datatype js_error = TypeError

text \<open>
  \<^verbatim>\<open>
  try {
    const saved = localStorage.getItem(STORAGE_KEY);
    return saved ? (JSON.parse(saved) as Employee[]) : [];
  } catch { return []; }
  \<close>
\<close>

fun localAdapter_load :: "stored \<Rightarrow> loaded" where
  "localAdapter_load NoItem = Arr []"
| "localAdapter_load Unparseable = Arr []"
| "localAdapter_load NonArray = Other"
| "localAdapter_load (Rows es) = Arr es"


text \<open>
  \<^verbatim>\<open>Partial<Task>\<close>: every field may be absent (\<open>None\<close>). An optional field of the task
  that is present in the patch holds a string or undefined (\<open>Some None\<close>, which leaves
  the task without the field once it is stored); a required field that is present holds
  a value.
\<close>

record task_patch =
  p_id :: "string option"
  p_category :: "string option"
  p_title :: "string option"
  p_status :: "status option"
  p_owner :: "string option option"
  p_dueDate :: "string option option"
  p_notes :: "string option option"

text \<open>\<^verbatim>\<open>{ ...t, ...patch }\<close>\<close>

definition apply_patch :: "task \<Rightarrow> task_patch \<Rightarrow> task" where
  "apply_patch t p =
     \<lparr>task_id = spread (task_id t) (p_id p),
      category = spread (category t) (p_category p),
      title = spread (title t) (p_title p),
      status = spread (status t) (p_status p),
      owner = spread (owner t) (p_owner p),
      dueDate = spread (dueDate t) (p_dueDate p),
      task_notes = spread (task_notes t) (p_notes p)\<rparr>"

text \<open>
  \<^verbatim>\<open>
  const next = data.map((e) =>
    e.id !== empId
      ? e
      : { ...e, tasks: e.tasks.map((t) => (t.id === taskId ? { ...t, ...patch } : t)) },
  );
  \<close>
\<close>

definition localAdapter_updateTask ::
  "string \<Rightarrow> string \<Rightarrow> task_patch \<Rightarrow> stored \<Rightarrow> js_error + stored" where
  "localAdapter_updateTask empId taskId patch st =
     (case localAdapter_load st of
        Other \<Rightarrow> Inl TypeError
      | Arr data \<Rightarrow>
          Inr (Rows (map (\<lambda>e. if emp_id e \<noteq> empId then e
                               else e\<lparr>tasks := map (\<lambda>t. if task_id t = taskId
                                                          then apply_patch t patch else t)
                                                   (tasks e)\<rparr>)
                       data)))"


text \<open>
  A call of the adapter followed by \<^verbatim>\<open>load()\<close>: the array loaded once the call has
  resolved, \<open>None\<close> when the call rejects or the value loaded is not an array.
\<close>

definition load_after :: "js_error + stored \<Rightarrow> employee list option" where
  "load_after r =
     (case r of
        Inl _ \<Rightarrow> None
      | Inr st \<Rightarrow> (case localAdapter_load st of Other \<Rightarrow> None | Arr es \<Rightarrow> Some es))"

subsection \<open>subscribe (lines 189-202) in the event loop\<close>

text \<open>
  \<^verbatim>\<open>
  subscribe(cb) {
    this.load().then(cb);
    const handler = (ev: StorageEvent) => {
      if (ev.key === STORAGE_KEY) {
        try { cb(ev.newValue ? JSON.parse(ev.newValue) : []); } catch { /* noop */ }
      }
    };
    window.addEventListener("storage", handler);
    return () => window.removeEventListener("storage", handler);
  }
  \<close>
  A subscription is known by a number, which stands for its callback and its handler.
  The page: the stored item, the queue of promise jobs (\<^verbatim>\<open>load()\<close> has read the item
  when \<^verbatim>\<open>subscribe\<close> returns, its promise is fulfilled, and \<^verbatim>\<open>then(cb)\<close> has queued the
  call of \<^verbatim>\<open>cb\<close> with that value), the handlers registered for the storage event, and
  the log of what has happened, oldest first.
\<close>

datatype obs = Delivered nat loaded | Disposed nat

record page =
  storage :: stored
  jobs :: "(nat \<times> loaded) list"
  handlers :: "nat list"
  trace :: "obs list"

text \<open>
  What the page does next: a call of \<^verbatim>\<open>subscribe\<close>, a call of the disposer it
  returned, the run of the oldest promise job, or a storage event (another page of the
  same origin has set the item under a key).
\<close>

datatype event = Subscribe nat | Dispose nat | RunJob | StorageEvent string stored

text \<open>The body of \<^verbatim>\<open>handler\<close> for the subscription \<open>s\<close>: the calls of \<^verbatim>\<open>cb\<close> it makes.\<close>

definition handler :: "nat \<Rightarrow> string \<Rightarrow> stored \<Rightarrow> obs list" where
  "handler s key newValue =
     (if key = STORAGE_KEY
      then (case newValue of
              NoItem \<Rightarrow> [Delivered s (Arr [])]
            | Unparseable \<Rightarrow> []
            | NonArray \<Rightarrow> [Delivered s Other]
            | Rows es \<Rightarrow> [Delivered s (Arr es)])
      else [])"

fun step :: "event \<Rightarrow> page \<Rightarrow> page" where
  "step (Subscribe s) pg =
     pg\<lparr>jobs := jobs pg @ [(s, localAdapter_load (storage pg))],
        handlers := handlers pg @ [s]\<rparr>"
| "step (Dispose s) pg =
     pg\<lparr>handlers := removeAll s (handlers pg), trace := trace pg @ [Disposed s]\<rparr>"
| "step RunJob pg =
     (case jobs pg of
        [] \<Rightarrow> pg
      | (s, v) # js \<Rightarrow> pg\<lparr>jobs := js, trace := trace pg @ [Delivered s v]\<rparr>)"
| "step (StorageEvent key newValue) pg =
     pg\<lparr>storage := (if key = STORAGE_KEY then newValue else storage pg),
        trace := trace pg @ concat (map (\<lambda>s. handler s key newValue) (handlers pg))\<rparr>"

definition run :: "event list \<Rightarrow> page \<Rightarrow> page" where
  "run evs pg = fold step evs pg"

definition fresh_page :: "stored \<Rightarrow> page" where
  "fresh_page st = \<lparr>storage = st, jobs = [], handlers = [], trace = []\<rparr>"

text \<open>
  The contract of the disposer, read on a log: no call of the callback of \<open>s\<close> stands
  after a call of its disposer.
\<close>

fun silent_after_dispose :: "nat \<Rightarrow> obs list \<Rightarrow> bool" where
  "silent_after_dispose s [] = True"
| "silent_after_dispose s (Disposed s' # os) =
     (if s' = s then list_all (\<lambda>ob. case ob of Delivered s'' _ \<Rightarrow> s'' \<noteq> s | Disposed _ \<Rightarrow> True) os
      else silent_after_dispose s os)"
| "silent_after_dispose s (Delivered _ _ # os) = silent_after_dispose s os"

text \<open>The number of calls of the callback of \<open>s\<close> in a log.\<close>

definition deliveries :: "nat \<Rightarrow> obs list \<Rightarrow> nat" where
  "deliveries s tr =
     length (filter (\<lambda>ob. case ob of Delivered s' _ \<Rightarrow> s' = s | Disposed _ \<Rightarrow> False) tr)"

section \<open>Firestore adapter (createFirestoreAdapter, lines 206-318)\<close>

text \<open>
  Modelled from the spec: the document store behind the Firestore SDK, which the adapter
  calls and which is not among the sources. As section 4.1 (remote variant) describes
  it, the store is a collection of employee documents, each the parent of a
  sub-collection of task documents. A document is found by its id, so a collection is an
  association list on document ids:
  \<^verbatim>\<open>setDoc\<close> is \<open>AList.update\<close> (it replaces the document of that id, or adds one),
  \<^verbatim>\<open>deleteDoc\<close> is \<open>AList.delete\<close>, \<^verbatim>\<open>updateDoc\<close> fails on a document that does not
  exist. A task document is keyed by the id of its parent and its own id; it does not
  need its parent to exist. The calls are taken to reach the store.
\<close>

record emp_doc =
  doc_name :: string
  doc_email :: string
  doc_role :: string
  doc_manager :: string
  doc_startDate :: string

record firestore =
  emp_docs :: "(string \<times> emp_doc) list"
  task_docs :: "((string \<times> string) \<times> task) list"








subsection \<open>subscribe (lines 277-316)\<close>

text \<open>
  Modelled from the spec: the listeners of the SDK (\<^verbatim>\<open>onSnapshot\<close> attaches a listener, which
  the SDK calls with every snapshot until the function \<^verbatim>\<open>onSnapshot\<close> returned is called).
  One subscription of the remote adapter: the variables of its closure and the listeners
  it has attached in the SDK. \<open>unsubEmp\<close> says that the variable of that name holds the
  function \<^verbatim>\<open>onSnapshot\<close> returned (it is null before); \<open>parent_live\<close> that the SDK still
  calls the listener of the employee collection; \<open>taskUnsubs\<close> lists the keys of the Map
  of that name; \<open>tasks_live\<close> the employees whose task listener the SDK still calls;
  \<open>base\<close> is the record built from the latest snapshot of the collection.
\<close>

record remote_sub =
  unsubEmp :: bool
  parent_live :: bool
  taskUnsubs :: "string list"
  tasks_live :: "string list"
  base :: "(string \<times> employee) list"
  delivered :: "employee list list"
  disposed_at :: "nat option"

text \<open>
  What happens to the subscription: the promise of \<^verbatim>\<open>ensure()\<close> resolves and its
  \<^verbatim>\<open>then\<close> callback attaches the listener of the collection; the SDK has a snapshot of
  the collection; the SDK has a snapshot of the tasks of one employee; the disposer is
  called. \<open>delivered\<close> logs the calls of \<^verbatim>\<open>cb\<close>, each with \<^verbatim>\<open>Object.values(base)\<close> (the
  employees in the order of the snapshot), and \<open>disposed_at\<close> keeps how many calls there
  had been when the disposer was called.
\<close>

datatype remote_event =
  EnsureResolved
| ParentSnapshot "(string \<times> emp_doc) list"
| TaskSnapshot string "task list"
| CallDisposer

definition remote_subscribe :: remote_sub where
  "remote_subscribe =
     \<lparr>unsubEmp = False, parent_live = False, taskUnsubs = [], tasks_live = [], base = [],
      delivered = [], disposed_at = None\<rparr>"

fun remote_step :: "remote_event \<Rightarrow> remote_sub \<Rightarrow> remote_sub" where
  "remote_step EnsureResolved r = r\<lparr>unsubEmp := True, parent_live := True\<rparr>"
| "remote_step (ParentSnapshot docs) r =
     (if parent_live r
      then (let b = map (\<lambda>(k, d). (k, \<lparr>emp_id = k, name = doc_name d,
                                         startDate = Some (doc_startDate d),
                                         role = Some (doc_role d),
                                         manager = Some (doc_manager d),
                                         email = Some (doc_email d), tasks = []\<rparr>)) docs
            in r\<lparr>base := b,
                 tasks_live := filter (\<lambda>k. k \<notin> set (taskUnsubs r)) (tasks_live r) @ map fst b,
                 taskUnsubs := map fst b,
                 delivered := delivered r @ [map snd b]\<rparr>)
      else r)"
| "remote_step (TaskSnapshot k ts) r =
     (if k \<in> set (tasks_live r)
      then (let b = map (\<lambda>(k', e). if k' = k then (k', e\<lparr>tasks := ts\<rparr>) else (k', e)) (base r)
            in r\<lparr>base := b, delivered := delivered r @ [map snd b]\<rparr>)
      else r)"
| "remote_step CallDisposer r =
     r\<lparr>parent_live := (if unsubEmp r then False else parent_live r),
       tasks_live := filter (\<lambda>k. k \<notin> set (taskUnsubs r)) (tasks_live r),
       taskUnsubs := [],
       disposed_at := Some (length (delivered r))\<rparr>"

definition remote_run :: "remote_event list \<Rightarrow> remote_sub \<Rightarrow> remote_sub" where
  "remote_run evs r = fold remote_step evs r"

section \<open>The application's updateTask and its webhook (lines 421-445)\<close>

text \<open>The two settings that \<^verbatim>\<open>updateTask\<close> reads.\<close>

record settings =
  webhookEnabled :: bool
  webhookUrl :: string

record webhook_payload =
  pl_empId :: string
  pl_taskId :: string
  pl_patch :: task_patch
  pl_event :: string
  pl_timestamp :: string

text \<open>
  A call of \<^verbatim>\<open>fetch\<close>: the URL and the options. The body is the text
  \<^verbatim>\<open>JSON.stringify(payload)\<close>, kept here as the payload it is the text of.
\<close>

record fetch_call =
  fc_url :: string
  fc_method :: string
  fc_headers :: "(string \<times> string) list"
  fc_body :: webhook_payload

text \<open>
  What the call of \<^verbatim>\<open>fetch\<close> does: it throws, or it returns a promise. Nothing awaits
  the promise and nothing handles its rejection, so what becomes of it is not seen by
  the program.
\<close>

datatype fetch_result = FetchThrows | FetchReturns

text \<open>
  The state around \<^verbatim>\<open>updateTask\<close>: the store behind the adapter, the calls of
  \<^verbatim>\<open>fetch\<close> made, and the warnings written to the console.
\<close>

record 'st app_state =
  store :: 'st
  fetch_log :: "fetch_call list"
  console_warn :: "string list"

definition notifies :: "settings \<Rightarrow> task_patch \<Rightarrow> bool" where
  "notifies cfg patch \<longleftrightarrow>
     webhookEnabled cfg \<and> webhookUrl cfg \<noteq> [] \<and>
     (truthy (map_option status_str (p_status patch)) \<or>
      truthy (case p_owner patch of None \<Rightarrow> None | Some w \<Rightarrow> w))"

text \<open>
  \<^verbatim>\<open>
  await adapterRef.current.updateTask(empId, taskId, patch);
  if (settings.webhookEnabled && settings.webhookUrl && (patch.status || patch.owner)) {
    try {
      const payload = { empId, taskId, patch, event: "task.updated",
                        timestamp: new Date().toISOString() };
      fetch(settings.webhookUrl, { method: "POST",
        headers: { "Content-Type": "application/json" }, body: JSON.stringify(payload) });
    } catch (err) { console.warn("Webhook failed", err); }
  }
  \<close>
  \<open>adapter\<close> is the \<^verbatim>\<open>updateTask\<close> of the adapter in use, \<open>now\<close> the text of
  \<^verbatim>\<open>new Date().toISOString()\<close>, \<open>fr\<close> what the call of \<^verbatim>\<open>fetch\<close> does. When the adapter
  rejects, the \<^verbatim>\<open>await\<close> throws and the function rejects with the same error.
\<close>

definition app_updateTask ::
  "settings \<Rightarrow> (string \<Rightarrow> string \<Rightarrow> task_patch \<Rightarrow> 'st \<Rightarrow> 'err + 'st) \<Rightarrow> string \<Rightarrow> fetch_result
     \<Rightarrow> string \<Rightarrow> string \<Rightarrow> task_patch \<Rightarrow> 'st app_state \<Rightarrow> 'err + 'st app_state" where
  "app_updateTask cfg adapter now fr empId taskId patch s =
     (case adapter empId taskId patch (store s) of
        Inl err \<Rightarrow> Inl err
      | Inr st' \<Rightarrow>
          (let s1 = s\<lparr>store := st'\<rparr>
           in if notifies cfg patch
              then (let payload = \<lparr>pl_empId = empId, pl_taskId = taskId, pl_patch = patch,
                                   pl_event = ''task.updated'', pl_timestamp = now\<rparr>;
                        s2 = s1\<lparr>fetch_log := fetch_log s1 @
                                  [\<lparr>fc_url = webhookUrl cfg, fc_method = ''POST'',
                                    fc_headers = [(''Content-Type'', ''application/json'')],
                                    fc_body = payload\<rparr>]\<rparr>
                    in (case fr of
                          FetchThrows \<Rightarrow>
                            Inr (s2\<lparr>console_warn := console_warn s2 @ [''Webhook failed'']\<rparr>)
                        | FetchReturns \<Rightarrow> Inr s2))
              else Inr s1))"

section \<open>Sample data\<close>

text \<open>The task of the development tests at the end of App.tsx (line 783).\<close>

definition dev_task :: task where
  "dev_task = \<lparr>task_id = ''1'', category = ''Accounts'', title = ''Create email'',
     status = InProgress, owner = Some ''Alice'', dueDate = Some ''2025-08-10'',
     task_notes = None\<rparr>"

definition dev_employee :: employee where
  "dev_employee = \<lparr>emp_id = ''emp_a'', name = ''Jane Doe'', startDate = Some ''2025-08-01'',
     role = Some ''Data Analyst'', manager = Some ''Alice'', email = Some ''jane@company.com'',
     tasks = [dev_task, dev_task\<lparr>task_id := ''2'', title := ''Add to domain''\<rparr>]\<rparr>"

definition dev_doc :: emp_doc where
  "dev_doc = \<lparr>doc_name = ''Jane Doe'', doc_email = ''jane@company.com'',
     doc_role = ''Data Analyst'', doc_manager = ''Alice'', doc_startDate = ''2025-08-01''\<rparr>"

text \<open>A list of \<open>n\<close> tasks of which the first \<open>d\<close> are done.\<close>

definition tasks_done_of :: "nat \<Rightarrow> nat \<Rightarrow> task list" where
  "tasks_done_of d n =
     replicate d (dev_task\<lparr>status := Done\<rparr>) @
     replicate (n - d) (dev_task\<lparr>status := NotStarted\<rparr>)"

text \<open>The patch \<^verbatim>\<open>{ status: v }\<close> of the status select of a task card (line 672).\<close>

definition status_patch :: "status \<Rightarrow> task_patch" where
  "status_patch s = \<lparr>p_id = None, p_category = None, p_title = None, p_status = Some s,
     p_owner = None, p_dueDate = None, p_notes = None\<rparr>"

text \<open>
  The webhook settings the application starts with (lines 339-340), and a pair with the
  webhook on.
\<close>

definition default_settings :: settings where
  "default_settings = \<lparr>webhookEnabled = False, webhookUrl = []\<rparr>"

definition hook_settings :: settings where
  "hook_settings = \<lparr>webhookEnabled = True, webhookUrl = ''https://example.org/hook''\<rparr>"

definition fresh_app :: "'st \<Rightarrow> 'st app_state" where
  "fresh_app st = \<lparr>store = st, fetch_log = [], console_warn = []\<rparr>"

text \<open>
  Two random sources: one that gives the same text at every call, one that gives a
  different text at every call. And a formatter of dates that is of no interest.
\<close>

definition same_draw :: "nat \<Rightarrow> string" where
  "same_draw n = ''k3j9x2a''"

definition distinct_draw :: "nat \<Rightarrow> string" where
  "distinct_draw n = replicate (Suc n) (CHR ''a'')"

definition no_date :: "int \<Rightarrow> string" where
  "no_date ms = ''1970-01-01''"




section \<open>The filter predicate\<close>



text \<open>
  The predicate in full: it holds exactly when every filter field that is present and
  not the empty string equals the field of the task.
\<close>

lemma matchTaskHelper_iff:
  "matchTaskHelper t f \<longleftrightarrow>
     (\<forall>s. fstatus f = Some s \<and> s \<noteq> [] \<longrightarrow> status_str (status t) = s) \<and>
     (\<forall>w. fowner f = Some w \<and> w \<noteq> [] \<longrightarrow> nullish_str (owner t) = w)"
  by (auto simp: matchTaskHelper_def truthy_def split: option.splits)

text \<open>
  C10. An empty-string filter field counts as absent: with \<^verbatim>\<open>{status: ""}\<close> and with
  \<^verbatim>\<open>{owner: ""}\<close> the predicate is true of every task, whatever its status and owner,
  and beside any other field the empty field changes nothing.
\<close>

theorem matchTaskHelper_empty_string_is_absent:
  "matchTaskHelper t \<lparr>fstatus = Some [], fowner = None\<rparr> \<and>
   matchTaskHelper t \<lparr>fstatus = None, fowner = Some []\<rparr> \<and>
   matchTaskHelper t \<lparr>fstatus = Some [], fowner = fo\<rparr>
     = matchTaskHelper t \<lparr>fstatus = None, fowner = fo\<rparr> \<and>
   matchTaskHelper t \<lparr>fstatus = fs, fowner = Some []\<rparr>
     = matchTaskHelper t \<lparr>fstatus = fs, fowner = None\<rparr>"
  by (simp add: matchTaskHelper_def truthy_def)

section \<open>Progress\<close>

text \<open>
  \<open>binade\<close> is the exponent it is meant to be, and rounding to a double keeps a value
  between 0 and an integer below \<open>2 ^ 52\<close> between them.
\<close>

lemma pow2_powi: "pow2 k = 2 powi k"
  by (simp add: pow2_def power_int_def power_inverse [symmetric] inverse_eq_divide power_one_over)

lemma pow2_pos [simp]: "0 < pow2 k"
  by (simp add: pow2_def)

lemma pow2_diff: "pow2 (i - j) = pow2 i / pow2 j"
  by (simp add: pow2_powi power_int_diff)

lemma pow2_nat: "0 \<le> k \<Longrightarrow> pow2 k = of_int (2 ^ nat k)"
  by (simp add: pow2_def)

lemma pow2_mono: "i \<le> j \<Longrightarrow> pow2 i \<le> pow2 j"
  by (simp add: pow2_powi power_int_increasing)

lemma binade_lower:
  assumes "0 < x"
  shows "pow2 (binade x) \<le> x"
proof -
  obtain a b where q: "quotient_of x = (a, b)" by (cases "quotient_of x")
  then have b: "0 < b" and x: "x = of_int a / of_int b"
    by (simp_all add: quotient_of_denom_pos quotient_of_div)
  with assms have a: "0 < a"
    by (simp add: zero_less_divide_iff)
  let ?k = "bitlen a - bitlen b"
  show ?thesis
  proof (cases "pow2 ?k \<le> x")
    case True
    with q show ?thesis by (simp add: binade_def)
  next
    case False
    with q have bin: "binade x = ?k - 1" by (simp add: binade_def)
    from bitlen_bounds [OF a] have la: "(2::int) ^ nat (bitlen a - 1) \<le> a" by simp
    from bitlen_bounds [OF b] have lb: "b < (2::int) ^ nat (bitlen b)" by simp
    have a1: "1 \<le> bitlen a" using a by (simp add: bitlen_alt_def)
    have "pow2 (?k - 1) = pow2 (bitlen a - 1) / pow2 (bitlen b)"
      using pow2_diff [of "bitlen a - 1" "bitlen b"] by (simp add: algebra_simps)
    also have "\<dots> = of_int (2 ^ nat (bitlen a - 1)) / of_int (2 ^ nat (bitlen b))"
      using a1 by (simp add: pow2_nat bitlen_nonneg)
    also have "\<dots> \<le> of_int a / of_int (2 ^ nat (bitlen b))"
      using la by (intro divide_right_mono) (simp_all flip: of_int_power add: of_int_le_iff del: of_int_power)
    also have "\<dots> \<le> of_int a / of_int b"
      using lb a b by (intro divide_left_mono) (simp_all flip: of_int_power del: of_int_power)
    finally have "pow2 (?k - 1) \<le> of_int a / of_int b" .
    then have "pow2 (?k - 1) \<le> x" by (simp only: x)
    then show ?thesis by (simp only: bin)
  qed
qed

lemma binade_upper:
  assumes "0 < x"
  shows "x < pow2 (binade x + 1)"
proof -
  obtain a b where q: "quotient_of x = (a, b)" by (cases "quotient_of x")
  then have b: "0 < b" and x: "x = of_int a / of_int b"
    by (simp_all add: quotient_of_denom_pos quotient_of_div)
  with assms have a: "0 < a"
    by (simp add: zero_less_divide_iff)
  let ?k = "bitlen a - bitlen b"
  show ?thesis
  proof (cases "pow2 ?k \<le> x")
    case True
    with q have bin: "binade x = ?k" by (simp add: binade_def)
    from bitlen_bounds [OF a] have la: "a < (2::int) ^ nat (bitlen a)" by simp
    from bitlen_bounds [OF b] have lb: "(2::int) ^ nat (bitlen b - 1) \<le> b" by simp
    have b1: "1 \<le> bitlen b" using b by (simp add: bitlen_alt_def)
    have "of_int a / of_int b \<le> of_int a / (of_int (2 ^ nat (bitlen b - 1)) :: rat)"
      using lb a b by (intro divide_left_mono) (simp_all add: zero_less_mult_iff)
    also have "\<dots> < of_int (2 ^ nat (bitlen a)) / of_int (2 ^ nat (bitlen b - 1))"
      using la by (intro divide_strict_right_mono) (simp_all flip: of_int_power del: of_int_power)
    also have "\<dots> = pow2 (bitlen a) / pow2 (bitlen b - 1)"
      using b1 by (simp add: pow2_nat bitlen_nonneg)
    also have "\<dots> = pow2 (?k + 1)"
      using pow2_diff [of "bitlen a" "bitlen b - 1"] by (simp add: algebra_simps)
    finally have "of_int a / of_int b < pow2 (?k + 1)" .
    then have "x < pow2 (?k + 1)" by (simp only: x)
    then show ?thesis by (simp only: bin)
  next
    case False
    with q have "binade x = ?k - 1" by (simp add: binade_def)
    with False show ?thesis by simp
  qed
qed

lemma round_half_even_le_ceiling: "round_half_even x \<le> \<lceil>x\<rceil>"
proof (cases "x = of_int \<lfloor>x\<rfloor>")
  case True
  then have "x - of_int \<lfloor>x\<rfloor> = 0" by simp
  then have "round_half_even x = \<lfloor>x\<rfloor>"
    by (simp add: round_half_even_def Let_def)
  then show ?thesis by (simp add: floor_le_ceiling)
next
  case False
  then have "\<lceil>x\<rceil> = \<lfloor>x\<rfloor> + 1" by (simp add: ceiling_altdef)
  then show ?thesis by (simp add: round_half_even_def Let_def)
qed

lemma round_half_even_le:
  assumes "x \<le> of_int n"
  shows "round_half_even x \<le> n"
proof -
  have "\<lceil>x\<rceil> \<le> n" using assms by (simp add: ceiling_le_iff)
  with round_half_even_le_ceiling [of x] show ?thesis by simp
qed

lemma round_half_even_nonneg: "0 \<le> x \<Longrightarrow> 0 \<le> round_half_even x"
  by (simp add: round_half_even_def Let_def)

lemma to_double_nonneg:
  assumes "0 \<le> x"
  shows "0 \<le> to_double x"
proof (cases "x = 0")
  case True
  then show ?thesis by (simp add: to_double_def)
next
  case False
  let ?u = "pow2 (binade \<bar>x\<bar> - 52)"
  have "0 \<le> x / ?u" using assms by (simp add: less_imp_le)
  then have "0 \<le> round_half_even (x / ?u)" by (rule round_half_even_nonneg)
  then have "0 \<le> of_int (round_half_even (x / ?u)) * ?u"
    by (intro mult_nonneg_nonneg) (simp_all add: less_imp_le)
  with False show ?thesis by (simp add: to_double_def Let_def)
qed

lemma to_double_le_int:
  assumes "0 \<le> x" "x \<le> of_int c" "c < 2 ^ 52"
  shows "to_double x \<le> of_int c"
proof (cases "x = 0")
  case True
  with assms show ?thesis by (simp add: to_double_def)
next
  case False
  with assms have pos: "0 < x" by simp
  let ?e = "binade x"
  let ?u = "pow2 (?e - 52)"
  have "pow2 ?e \<le> of_int c" using binade_lower [OF pos] assms(2) by simp
  also have "\<dots> < pow2 52" using assms(3) by (simp add: pow2_def flip: of_int_less_iff)
  finally have lt: "pow2 ?e < pow2 52" .
  have "?e < 52"
  proof (rule ccontr)
    assume "\<not> ?e < 52"
    then have "pow2 52 \<le> pow2 ?e" by (intro pow2_mono) simp
    with lt show False by simp
  qed
  then have u: "?u = 1 / of_int (2 ^ nat (52 - ?e))"
    by (simp add: pow2_def)
  have "x / ?u \<le> of_int (c * 2 ^ nat (52 - ?e))"
    using assms(2) by (simp add: u mult_right_mono)
  then have "round_half_even (x / ?u) \<le> c * 2 ^ nat (52 - ?e)"
    by (rule round_half_even_le)
  then have "(of_int (round_half_even (x / ?u)) :: rat) \<le> of_int (c * 2 ^ nat (52 - ?e))"
    by (simp only: of_int_le_iff)
  then have "of_int (round_half_even (x / ?u)) * ?u \<le> of_int (c * 2 ^ nat (52 - ?e)) * ?u"
    by (rule mult_right_mono) (simp add: less_imp_le)
  also have "\<dots> = of_int c" by (simp add: u)
  finally show ?thesis using pos by (simp add: to_double_def Let_def abs_of_pos)
qed

text \<open>
  Of every list, the empty one included, the progress is an integer from 0 to 100.
\<close>

lemma calcProgress_range: "0 \<le> calcProgress ts \<and> calcProgress ts \<le> 100"
proof -
  define d where "d = length (filter (\<lambda>t. status t = Done) ts)"
  define n where "n = (if length ts = 0 then 1 else length ts)"
  have dn: "d \<le> n" "0 < n"
    by (simp_all add: d_def n_def)
  let ?q = "(of_nat d / of_nat n :: rat)"
  have q: "0 \<le> ?q" "?q \<le> of_int 1" using dn by (simp_all add: divide_le_eq)
  have q1: "0 \<le> to_double ?q" "to_double ?q \<le> 1"
    using q to_double_nonneg [of ?q] to_double_le_int [of ?q 1] by simp_all
  then have y: "0 \<le> to_double ?q * 100" "to_double ?q * 100 \<le> 100" by simp_all
  have z: "0 \<le> to_double (to_double ?q * 100)" "to_double (to_double ?q * 100) \<le> 100"
    using y to_double_nonneg [of "to_double ?q * 100"]
      to_double_le_int [of "to_double ?q * 100" 100] by simp_all
  have "calcProgress ts = js_round (to_double (to_double ?q * 100))"
    by (simp add: calcProgress_def Let_def d_def n_def)
  moreover have "0 \<le> js_round (to_double (to_double ?q * 100))"
    using z(1) by (simp add: js_round_def)
  moreover have "js_round (to_double (to_double ?q * 100)) \<le> 100"
    using z(2) by (simp add: js_round_def floor_le_iff)
  ultimately show ?thesis by simp
qed


lemma calcProgress_empty: "calcProgress [] = 0"
  by code_simp

lemma calcProgress_half:
  "calcProgress [dev_task\<lparr>status := Done\<rparr>, dev_task\<lparr>status := NotStarted\<rparr>] = 50"
  by code_simp

text \<open>
  C4. The progress of 40 tasks of which 23 are done: the formula of the specification
  gives round(57.5) = 58, and \<open>calcProgress\<close> returns 57. The quotient 23 / 40 is not a
  double; the nearest double lies below it, and so does its product with 100,
  57.49999999999999, which \<^verbatim>\<open>Math.round\<close> takes down.
\<close>

theorem calcProgress_tie_of_23_in_40:
  "calcProgress (tasks_done_of 23 40) = 57 \<and>
   progress_formula (tasks_done_of 23 40) = 58 \<and>
   to_double (to_double (23 / 40) * 100) = 8092405580431359 / 140737488355328"
  by code_simp

section \<open>CSV export\<close>

lemma set_fold_insert:
  "set (fold (\<lambda>x acc. if x \<in> set acc then acc else acc @ [x]) xs acc) = set acc \<union> set xs"
  by (induction xs arbitrary: acc) auto

lemma distinct_fold_insert:
  "distinct acc \<Longrightarrow> distinct (fold (\<lambda>x acc. if x \<in> set acc then acc else acc @ [x]) xs acc)"
  by (induction xs arbitrary: acc) auto

lemma set_array_from_set [simp]: "set (array_from_set xs) = set xs"
  by (simp add: array_from_set_def set_fold_insert)

lemma distinct_array_from_set [simp]: "distinct (array_from_set xs)"
  by (simp add: array_from_set_def distinct_fold_insert)

lemma split_not_Nil [simp]: "split c s \<noteq> []"
  by (induction s) (auto split: list.splits)














section \<open>The task template\<close>

lemma length_template_slots: "length template_slots = 20"
  by code_simp

lemma sum_template: "sum_list (map (\<lambda>(c, ts). length ts) DEFAULT_CATEGORIES) = 20"
  by code_simp

lemma map_enumerate_index:
  "map (\<lambda>(n, x). f n) (enumerate 0 xs) = map f [0..<length xs]"
proof -
  have "map f [0..<length xs] = map f (map fst (enumerate 0 xs))"
    by simp
  also have "\<dots> = map (\<lambda>(n, x). f n) (enumerate 0 xs)"
    by (simp only: map_map) (simp add: comp_def case_prod_unfold)
  finally show ?thesis by simp
qed

lemma ids_cloneTemplate:
  "map task_id (cloneTemplate today toISODate random36)
   = map (\<lambda>n. uid ''task'' (random36 n)) [0..<20]"
proof -
  have "map task_id (cloneTemplate today toISODate random36)
        = map (\<lambda>(n, x). uid ''task'' (random36 n)) (enumerate 0 template_slots)"
    by (simp add: cloneTemplate_def case_prod_unfold comp_def)
  then show ?thesis
    by (simp only: map_enumerate_index length_template_slots)
qed

lemma distinct_uid:
  "distinct (map (\<lambda>n. uid p (f n)) ns) = distinct (map f ns)"
proof -
  have "inj (uid p)" by (simp add: inj_def uid_def)
  then have "inj_on (uid p) (set (map f ns))" by (rule inj_on_subset) simp
  moreover have "distinct (map (uid p) (map f ns))
       = (distinct (map f ns) \<and> inj_on (uid p) (set (map f ns)))"
    by (rule distinct_map)
  ultimately have "distinct (map (uid p) (map f ns)) = distinct (map f ns)" by simp
  then show ?thesis by (simp add: comp_def)
qed

text \<open>
  C8. Every call of \<open>cloneTemplate\<close> returns a list whose length is the sum of the task
  counts of the fixed categories, which is 20; and the task ids of the list are pairwise
  different exactly when the random texts of its 20 calls of \<open>uid\<close> are pairwise
  different. Nothing in the code compares one id with another.
\<close>

theorem cloneTemplate_length_and_ids:
  "length (cloneTemplate today toISODate random36)
     = sum_list (map (\<lambda>(c, ts). length ts) DEFAULT_CATEGORIES) \<and>
   length (cloneTemplate today toISODate random36) = 20 \<and>
   (distinct (map task_id (cloneTemplate today toISODate random36))
      \<longleftrightarrow> distinct (map random36 [0..<20]))"
proof -
  have l: "length (cloneTemplate today toISODate random36) = 20"
    by (simp add: cloneTemplate_def length_template_slots)
  have d: "distinct (map task_id (cloneTemplate today toISODate random36))
      \<longleftrightarrow> distinct (map random36 [0..<20])"
    by (simp only: ids_cloneTemplate distinct_uid)
  from l d show ?thesis by (simp add: sum_template)
qed

theorem cloneTemplate_length_and_ids_witness:
  "distinct (map task_id (cloneTemplate 0 no_date distinct_draw)) \<and>
   length (cloneTemplate 0 no_date distinct_draw) = 20"
proof -
  have "inj_on distinct_draw {0..<20}"
    by (auto simp: inj_on_def distinct_draw_def dest: arg_cong [where f = length])
  then have "distinct (map distinct_draw [0..<20])"
    by (simp add: distinct_map)
  with cloneTemplate_length_and_ids [of 0 no_date distinct_draw] show ?thesis by blast
qed

text \<open>
  A random source that gives the same text twice: the first two tasks of the template
  get the same id.
\<close>

theorem cloneTemplate_repeated_draw:
  "\<not> distinct (map task_id (cloneTemplate 0 no_date same_draw)) \<and>
   task_id (cloneTemplate 0 no_date same_draw ! 0) = ''task_k3j9x2a'' \<and>
   task_id (cloneTemplate 0 no_date same_draw ! 1) = ''task_k3j9x2a''"
  by code_simp


section \<open>The local adapter: updateTask\<close>

lemma map_tasks_id:
  "\<forall>t \<in> set ts. task_id t \<noteq> k \<Longrightarrow> map (\<lambda>t. if task_id t = k then f t else t) ts = ts"
  by (induction ts) auto

text \<open>
  C2. For every stored collection, every employee id, task id and patch, the local
  \<open>updateTask\<close> resolves, and the collection loaded afterwards is the old one in which
  every task with that task id of every employee with that employee id has taken the
  patch (a field the patch has takes the patch's value, every other field keeps its
  own), every other task and every other employee being as before. When no employee of
  that id has a task of that id, the collection loaded afterwards is the old one: a
  silent no-op, not a failure.
\<close>

theorem localAdapter_updateTask_merges:
  assumes "localAdapter_load st = Arr es"
  shows "(\<exists>es'. load_after (localAdapter_updateTask empId taskId p st) = Some es' \<and>
          length es' = length es \<and>
          (\<forall>i < length es.
             (emp_id (es ! i) \<noteq> empId \<longrightarrow> es' ! i = es ! i) \<and>
             (emp_id (es ! i) = empId \<longrightarrow>
                (\<exists>ts'. es' ! i = (es ! i)\<lparr>tasks := ts'\<rparr> \<and>
                   length ts' = length (tasks (es ! i)) \<and>
                   (\<forall>j < length ts'.
                      ts' ! j = (if task_id (tasks (es ! i) ! j) = taskId
                                 then apply_patch (tasks (es ! i) ! j) p
                                 else tasks (es ! i) ! j))))) \<and>
          ((\<forall>e \<in> set es. emp_id e = empId \<longrightarrow> (\<forall>t \<in> set (tasks e). task_id t \<noteq> taskId))
             \<longrightarrow> es' = es)) \<and>
         task_id (apply_patch t p) = (case p_id p of None \<Rightarrow> task_id t | Some v \<Rightarrow> v) \<and>
         category (apply_patch t p) = (case p_category p of None \<Rightarrow> category t | Some v \<Rightarrow> v) \<and>
         title (apply_patch t p) = (case p_title p of None \<Rightarrow> title t | Some v \<Rightarrow> v) \<and>
         status (apply_patch t p) = (case p_status p of None \<Rightarrow> status t | Some v \<Rightarrow> v) \<and>
         owner (apply_patch t p) = (case p_owner p of None \<Rightarrow> owner t | Some v \<Rightarrow> v) \<and>
         dueDate (apply_patch t p) = (case p_dueDate p of None \<Rightarrow> dueDate t | Some v \<Rightarrow> v) \<and>
         task_notes (apply_patch t p)
           = (case p_notes p of None \<Rightarrow> task_notes t | Some v \<Rightarrow> v)"
proof -
  let ?g = "\<lambda>t. if task_id t = taskId then apply_patch t p else t"
  let ?f = "\<lambda>e. if emp_id e \<noteq> empId then e else e\<lparr>tasks := map ?g (tasks e)\<rparr>"
  have la: "load_after (localAdapter_updateTask empId taskId p st) = Some (map ?f es)"
    using assms by (simp add: load_after_def localAdapter_updateTask_def)
  have noop: "map ?f es = es"
    if "\<forall>e \<in> set es. emp_id e = empId \<longrightarrow> (\<forall>t \<in> set (tasks e). task_id t \<noteq> taskId)"
  proof (rule map_idI)
    fix e assume "e \<in> set es"
    with that show "?f e = e" by (simp add: map_tasks_id)
  qed
  have merged: "\<exists>es'. load_after (localAdapter_updateTask empId taskId p st) = Some es' \<and>
          length es' = length es \<and>
          (\<forall>i < length es.
             (emp_id (es ! i) \<noteq> empId \<longrightarrow> es' ! i = es ! i) \<and>
             (emp_id (es ! i) = empId \<longrightarrow>
                (\<exists>ts'. es' ! i = (es ! i)\<lparr>tasks := ts'\<rparr> \<and>
                   length ts' = length (tasks (es ! i)) \<and>
                   (\<forall>j < length ts'.
                      ts' ! j = (if task_id (tasks (es ! i) ! j) = taskId
                                 then apply_patch (tasks (es ! i) ! j) p
                                 else tasks (es ! i) ! j))))) \<and>
          ((\<forall>e \<in> set es. emp_id e = empId \<longrightarrow> (\<forall>t \<in> set (tasks e). task_id t \<noteq> taskId))
             \<longrightarrow> es' = es)"
    apply (rule exI [of _ "map ?f es"])
    using la noop by auto
  show ?thesis
    using merged by (simp add: apply_patch_def spread_def)
qed

theorem localAdapter_updateTask_merges_witness:
  "load_after (localAdapter_updateTask ''emp_a'' ''2'' (status_patch Done) (Rows [dev_employee]))
     = Some [dev_employee\<lparr>tasks :=
               [dev_task,
                dev_task\<lparr>task_id := ''2'', title := ''Add to domain'', status := Done\<rparr>]\<rparr>] \<and>
   load_after (localAdapter_updateTask ''emp_a'' ''3'' (status_patch Done) (Rows [dev_employee]))
     = Some [dev_employee] \<and>
   load_after (localAdapter_updateTask ''emp_b'' ''2'' (status_patch Done) (Rows [dev_employee]))
     = Some [dev_employee]"
  using localAdapter_updateTask_merges
      [of "Rows [dev_employee]" "[dev_employee]" "''emp_a''" "''2''" "status_patch Done"]
    localAdapter_updateTask_merges
      [of "Rows [dev_employee]" "[dev_employee]" "''emp_a''" "''3''" "status_patch Done"]
  by (simp add: load_after_def localAdapter_updateTask_def dev_employee_def dev_task_def
      status_patch_def apply_patch_def spread_def)

section \<open>removeEmployee\<close>

lemma emp_docs_fold_delete [simp]:
  "emp_docs (fold (\<lambda>(k, t) d. d\<lparr>task_docs := AList.delete (empId, k) (task_docs d)\<rparr>) xs db)
   = emp_docs db"
  by (induction xs arbitrary: db) (auto split: prod.splits)

lemma emp_docs_fold_update [simp]:
  "emp_docs (fold (\<lambda>t d. d\<lparr>task_docs := AList.update (i, task_id t) t (task_docs d)\<rparr>) ts db)
   = emp_docs db"
  by (induction ts arbitrary: db) auto











section \<open>Uniqueness of employee ids\<close>








section \<open>subscribe and its disposer\<close>

lemma deliveries_append [simp]: "deliveries s (xs @ ys) = deliveries s xs + deliveries s ys"
  by (simp add: deliveries_def)

lemma deliveries_Nil [simp]: "deliveries s [] = 0"
  by (simp add: deliveries_def)

lemma deliveries_handler: "s' \<noteq> s \<Longrightarrow> deliveries s (handler s' key nv) = 0"
  by (simp add: handler_def deliveries_def split: stored.splits)

lemma deliveries_handlers:
  "s \<notin> set hs \<Longrightarrow> deliveries s (concat (map (\<lambda>s'. handler s' key nv) hs)) = 0"
  by (induction hs) (auto simp: deliveries_handler) 

lemma step_quiet:
  assumes "s \<notin> set (handlers pg)" "s \<notin> fst ` set (jobs pg)" "ev \<noteq> Subscribe s"
  shows "s \<notin> set (handlers (step ev pg)) \<and> s \<notin> fst ` set (jobs (step ev pg)) \<and>
         deliveries s (trace (step ev pg)) = deliveries s (trace pg)"
proof (cases ev)
  case (Subscribe s')
  with assms show ?thesis by auto
next
  case (Dispose s')
  with assms show ?thesis by (auto simp: deliveries_def)
next
  case RunJob
  with assms show ?thesis
    by (cases "jobs pg") (auto simp: deliveries_def)
next
  case (StorageEvent key nv)
  with assms show ?thesis by (simp add: deliveries_handlers)
qed

lemma run_quiet:
  "s \<notin> set (handlers pg) \<Longrightarrow> s \<notin> fst ` set (jobs pg) \<Longrightarrow> Subscribe s \<notin> set evs \<Longrightarrow>
   deliveries s (trace (run evs pg)) = deliveries s (trace pg)"
proof (induction evs arbitrary: pg)
  case Nil
  then show ?case by (simp add: run_def)
next
  case (Cons ev evs)
  from Cons.prems have q: "s \<notin> set (handlers (step ev pg)) \<and> s \<notin> fst ` set (jobs (step ev pg)) \<and>
         deliveries s (trace (step ev pg)) = deliveries s (trace pg)"
    by (intro step_quiet) auto
  have "run (ev # evs) pg = run evs (step ev pg)" by (simp add: run_def)
  with Cons.IH [of "step ev pg"] q Cons.prems show ?case by simp
qed

text \<open>
  The initial delivery of the local adapter: the job that \<open>subscribe\<close> queues calls the
  callback with what the store held at the call of \<open>subscribe\<close>.
\<close>

lemma subscribe_initial_delivery:
  "jobs pg = [] \<Longrightarrow>
   trace (run [Subscribe s, RunJob] pg) = trace pg @ [Delivered s (localAdapter_load (storage pg))]"
  by (simp add: run_def)

text \<open>
  A disposer called after the initial delivery does stop the callback: whatever happens
  later, short of a new subscription of the same callback, it is not called again.
\<close>

lemma dispose_after_initial_delivery:
  assumes "jobs pg = []" "s \<notin> set (handlers pg)" "Subscribe s \<notin> set evs"
  shows "deliveries s (trace (run ([Subscribe s, RunJob, Dispose s] @ evs) pg))
         = deliveries s (trace pg) + 1"
proof -
  let ?pg = "run [Subscribe s, RunJob, Dispose s] pg"
  have "run ([Subscribe s, RunJob, Dispose s] @ evs) pg = run evs ?pg"
    by (simp add: run_def)
  moreover have "s \<notin> set (handlers ?pg)" "s \<notin> fst ` set (jobs ?pg)"
    using assms by (simp_all add: run_def)
  moreover have "deliveries s (trace ?pg) = deliveries s (trace pg) + 1"
    using assms by (simp add: run_def deliveries_def)
  ultimately show ?thesis
    using run_quiet [of s ?pg evs] assms(3) by simp
qed


text \<open>
  C1. The disposer called before the initial delivery does not stop it. Local adapter:
  \<open>subscribe\<close>, then its disposer in the same turn of the event loop; the job queued by
  \<^verbatim>\<open>this.load().then(cb)\<close> runs afterwards and calls the callback, after the disposer.
  Remote adapter: the disposer called before the promise of \<^verbatim>\<open>ensure()\<close> has resolved
  finds \<^verbatim>\<open>unsubEmp\<close> null and detaches nothing; the listener of the collection is
  attached afterwards, stays attached, and calls the callback at the next snapshot.
\<close>

theorem subscribe_delivers_after_dispose:
  "trace (run [Subscribe 0, Dispose 0, RunJob] (fresh_page (Rows [dev_employee])))
     = [Disposed 0, Delivered 0 (Arr [dev_employee])] \<and>
   \<not> silent_after_dispose 0
       (trace (run [Subscribe 0, Dispose 0, RunJob] (fresh_page (Rows [dev_employee])))) \<and>
   disposed_at (remote_run [CallDisposer, EnsureResolved, ParentSnapshot [(''emp_a'', dev_doc)]]
                  remote_subscribe) = Some 0 \<and>
   delivered (remote_run [CallDisposer, EnsureResolved, ParentSnapshot [(''emp_a'', dev_doc)]]
                  remote_subscribe) = [[dev_employee\<lparr>tasks := []\<rparr>]] \<and>
   parent_live (remote_run [CallDisposer, EnsureResolved, ParentSnapshot [(''emp_a'', dev_doc)]]
                  remote_subscribe)"
  by (simp add: run_def fresh_page_def remote_run_def remote_subscribe_def dev_doc_def
      dev_employee_def Let_def)

section \<open>The webhook of updateTask\<close>

lemma status_str_nonempty [simp]: "status_str s \<noteq> []"
  by (cases s) simp_all

text \<open>
  C6. For every call of \<open>updateTask\<close> whose adapter mutation resolves: when the webhook
  is enabled and its URL is not empty, and the patch holds a status or an owner that is
  not the empty string, exactly one call of \<^verbatim>\<open>fetch\<close> is made, after the mutation, a
  POST to the URL whose body holds the event name "task.updated", the timestamp, the
  employee id, the task id and the patch; the store keeps the mutation whether the call
  of \<^verbatim>\<open>fetch\<close> throws (the failure is caught and logged) or not. When the webhook is
  disabled, or its URL is empty, or the patch holds neither status nor owner, no call of
  \<^verbatim>\<open>fetch\<close> is made. When the mutation rejects, the function rejects with its error.
\<close>

theorem app_updateTask_webhook:
  "(adapter empId taskId patch (store s) = Inr st' \<longrightarrow>
      (webhookEnabled cfg \<and> webhookUrl cfg \<noteq> [] \<and>
       (p_status patch \<noteq> None \<or> (\<exists>w. p_owner patch = Some (Some w) \<and> w \<noteq> []))
       \<longrightarrow> (\<exists>s'. app_updateTask cfg adapter now fr empId taskId patch s = Inr s' \<and>
                 store s' = st' \<and>
                 fetch_log s' = fetch_log s @
                   [\<lparr>fc_url = webhookUrl cfg, fc_method = ''POST'',
                     fc_headers = [(''Content-Type'', ''application/json'')],
                     fc_body = \<lparr>pl_empId = empId, pl_taskId = taskId, pl_patch = patch,
                                pl_event = ''task.updated'', pl_timestamp = now\<rparr>\<rparr>] \<and>
                 console_warn s' = console_warn s @
                   (case fr of FetchThrows \<Rightarrow> [''Webhook failed''] | FetchReturns \<Rightarrow> []))) \<and>
      (\<not> webhookEnabled cfg \<or> webhookUrl cfg = [] \<or>
       (p_status patch = None \<and> p_owner patch = None)
       \<longrightarrow> app_updateTask cfg adapter now fr empId taskId patch s = Inr (s\<lparr>store := st'\<rparr>))) \<and>
   (adapter empId taskId patch (store s) = Inl err \<longrightarrow>
      app_updateTask cfg adapter now fr empId taskId patch s = Inl err)"
  by (cases fr; cases "p_status patch")
     (auto simp: app_updateTask_def notifies_def Let_def truthy_def)

theorem app_updateTask_webhook_witness:
  "(\<exists>s'. app_updateTask hook_settings localAdapter_updateTask ''2025-08-10T12:34:56.000Z''
            FetchThrows ''emp_a'' ''1'' (status_patch Done) (fresh_app (Rows [dev_employee]))
          = Inr s' \<and>
         store s' = Rows [dev_employee\<lparr>tasks :=
                       [dev_task\<lparr>status := Done\<rparr>,
                        dev_task\<lparr>task_id := ''2'', title := ''Add to domain''\<rparr>]\<rparr>] \<and>
         fetch_log s' =
           [\<lparr>fc_url = ''https://example.org/hook'', fc_method = ''POST'',
             fc_headers = [(''Content-Type'', ''application/json'')],
             fc_body = \<lparr>pl_empId = ''emp_a'', pl_taskId = ''1'', pl_patch = status_patch Done,
                        pl_event = ''task.updated'',
                        pl_timestamp = ''2025-08-10T12:34:56.000Z''\<rparr>\<rparr>])"
  using app_updateTask_webhook
    [of localAdapter_updateTask "''emp_a''" "''1''" "status_patch Done"
        "fresh_app (Rows [dev_employee])"
        "Rows [dev_employee\<lparr>tasks :=
                       [dev_task\<lparr>status := Done\<rparr>,
                        dev_task\<lparr>task_id := ''2'', title := ''Add to domain''\<rparr>]\<rparr>]"
        hook_settings "''2025-08-10T12:34:56.000Z''" FetchThrows]
  by (auto simp: hook_settings_def fresh_app_def status_patch_def localAdapter_updateTask_def
      dev_employee_def dev_task_def apply_patch_def spread_def)

text \<open>
  The settings the application starts with have the webhook disabled: a patch of the
  status goes to the store, and no call of \<^verbatim>\<open>fetch\<close> is made.
\<close>

theorem app_updateTask_webhook_disabled:
  "app_updateTask default_settings localAdapter_updateTask ''2025-08-10T12:34:56.000Z''
     FetchReturns ''emp_a'' ''1'' (status_patch Done) (fresh_app (Rows [dev_employee]))
   = Inr (fresh_app (Rows [dev_employee\<lparr>tasks :=
                       [dev_task\<lparr>status := Done\<rparr>,
                        dev_task\<lparr>task_id := ''2'', title := ''Add to domain''\<rparr>]\<rparr>])) \<and>
   fetch_log (fresh_app (Rows [dev_employee\<lparr>tasks :=
                       [dev_task\<lparr>status := Done\<rparr>,
                        dev_task\<lparr>task_id := ''2'', title := ''Add to domain''\<rparr>]\<rparr>])) = []"
  by (simp add: app_updateTask_def notifies_def default_settings_def fresh_app_def
      status_patch_def localAdapter_updateTask_def dev_employee_def dev_task_def
      apply_patch_def spread_def)

end
